theory Spec2Isabelle
  imports Complex_Main "HOL-Library.Multiset"
begin

section \<open>JavaScript numbers and values\<close>

text \<open>
  A JavaScript number is modelled as an exact rational, together with the three
  non-finite values \<open>NaN\<close>, \<open>Infinity\<close> and \<open>-Infinity\<close>. Rounding of IEEE doubles and
  the sign of zero are not modelled: every arithmetic operation below is the exact one.
\<close>

datatype jsnum = NaN | Fin rat | PInf | NInf

text \<open>The operator \<open>+\<close> on two numbers.\<close>

fun jsAdd :: "jsnum \<Rightarrow> jsnum \<Rightarrow> jsnum" where
  "jsAdd NaN y = NaN"
| "jsAdd (Fin a) NaN = NaN"
| "jsAdd (Fin a) (Fin b) = Fin (a + b)"
| "jsAdd (Fin a) PInf = PInf"
| "jsAdd (Fin a) NInf = NInf"
| "jsAdd PInf NaN = NaN"
| "jsAdd PInf (Fin b) = PInf"
| "jsAdd PInf PInf = PInf"
| "jsAdd PInf NInf = NaN"
| "jsAdd NInf NaN = NaN"
| "jsAdd NInf (Fin b) = NInf"
| "jsAdd NInf PInf = NaN"
| "jsAdd NInf NInf = NInf"

text \<open>
  The operator \<open>/\<close> with a non-negative integer divisor (a \<open>length\<close> or a counter):
  every division in the modelled code has this shape.
\<close>

fun jsDivN :: "jsnum \<Rightarrow> nat \<Rightarrow> jsnum" where
  "jsDivN NaN n = NaN"
| "jsDivN (Fin a) n =
     (if n = 0 then (if a = 0 then NaN else if 0 < a then PInf else NInf)
      else Fin (a / of_nat n))"
| "jsDivN PInf n = PInf"
| "jsDivN NInf n = NInf"

text \<open>\<open>x >= c\<close> and \<open>x < c\<close> against a finite constant: false whenever \<open>x\<close> is \<open>NaN\<close>.\<close>

fun jsGe :: "jsnum \<Rightarrow> rat \<Rightarrow> bool" where
  "jsGe NaN c = False"
| "jsGe (Fin a) c = (c \<le> a)"
| "jsGe PInf c = True"
| "jsGe NInf c = False"

fun jsLt :: "jsnum \<Rightarrow> rat \<Rightarrow> bool" where
  "jsLt NaN c = False"
| "jsLt (Fin a) c = (a < c)"
| "jsLt PInf c = False"
| "jsLt NInf c = True"

text \<open>Truthiness of a number: \<open>NaN\<close> and zero are falsy.\<close>

fun truthy :: "jsnum \<Rightarrow> bool" where
  "truthy NaN = False"
| "truthy (Fin a) = (a \<noteq> 0)"
| "truthy PInf = True"
| "truthy NInf = True"

text \<open>\<open>x || d\<close> for a number \<open>x\<close> and a numeric default \<open>d\<close>.\<close>

definition orDefault :: "jsnum \<Rightarrow> jsnum \<Rightarrow> jsnum" where
  "orDefault x d = (if truthy x then x else d)"


text \<open>
  The values a persisted grade entry can hold under a key. \<open>VUndefined\<close> is what reading
  a missing key yields.
\<close>

datatype jsval = VUndefined | VNull | VBool bool | VNum jsnum | VStr string

text \<open>
  A plain object is the list of its own enumerable string keys with their values, in
  enumeration order (the order of \<open>for (key in obj)\<close>).
\<close>

type_synonym jsobject = "(string \<times> jsval) list"

definition getProp :: "jsobject \<Rightarrow> string \<Rightarrow> jsval" where
  "getProp obj k = (case map_of obj k of None \<Rightarrow> VUndefined | Some v \<Rightarrow> v)"

text \<open>\<open>obj[k] = v\<close>: an existing key keeps its place, a new key goes last.\<close>

fun setProp :: "jsobject \<Rightarrow> string \<Rightarrow> jsval \<Rightarrow> jsobject" where
  "setProp [] k v = [(k, v)]"
| "setProp ((k', v') # rest) k v =
     (if k' = k then (k, v) # rest else (k', v') # setProp rest k v)"

subsection \<open>Parsing and printing numbers\<close>

definition isDigit :: "char \<Rightarrow> bool" where
  "isDigit c = (48 \<le> (of_char c :: nat) \<and> (of_char c :: nat) \<le> 57)"

definition digitVal :: "char \<Rightarrow> nat" where
  "digitVal c = of_char c - 48"

text \<open>The ASCII part of the white space that \<open>trim\<close>, \<open>parseFloat\<close> and \<open>parseInt\<close> skip.\<close>

definition isWhiteSpace :: "char \<Rightarrow> bool" where
  "isWhiteSpace c =
     ((of_char c :: nat) = 32 \<or> (9 \<le> (of_char c :: nat) \<and> (of_char c :: nat) \<le> 13))"

definition digitsValue :: "string \<Rightarrow> nat" where
  "digitsValue ds = foldl (\<lambda>acc c. 10 * acc + digitVal c) 0 ds"

definition stripSign :: "string \<Rightarrow> bool \<times> string" where
  "stripSign s =
     (case s of
        [] \<Rightarrow> (False, [])
      | c # r \<Rightarrow>
          if c = CHR ''-'' then (True, r)
          else if c = CHR ''+'' then (False, r)
          else (False, s))"

definition parseExponent :: "string \<Rightarrow> bool \<times> nat" where
  "parseExponent s =
     (case s of
        [] \<Rightarrow> (False, 0)
      | c # r \<Rightarrow>
          if c = CHR ''e'' \<or> c = CHR ''E'' then
            (let (neg, t) = stripSign r; ds = takeWhile isDigit t
             in if ds = [] then (False, 0) else (neg, digitsValue ds))
          else (False, 0))"

text \<open>
  \<open>parseFloat\<close> on a string: leading white space, an optional sign, then \<open>Infinity\<close> or
  the longest decimal literal (digits, an optional fraction, an optional exponent);
  whatever follows is ignored; \<open>NaN\<close> when no digit is found.
\<close>

definition parseFloat :: "string \<Rightarrow> jsnum" where
  "parseFloat s =
     (let (neg, u) = stripSign (dropWhile isWhiteSpace s) in
      if take 8 u = ''Infinity'' then (if neg then NInf else PInf)
      else
        (let ip = takeWhile isDigit u;
             r1 = dropWhile isDigit u;
             (fp, r2) = (case r1 of
                           [] \<Rightarrow> ([], [])
                         | c # r \<Rightarrow>
                             if c = CHR ''.'' then (takeWhile isDigit r, dropWhile isDigit r)
                             else ([], r1))
         in if ip = [] \<and> fp = [] then NaN
            else
              (let m = (of_nat (digitsValue ip) :: rat)
                         + of_nat (digitsValue fp) / 10 ^ length fp;
                   (eneg, e) = parseExponent r2;
                   v = (if eneg then m / 10 ^ e else m * 10 ^ e)
               in Fin (if neg then - v else v))))"

text \<open>
  \<open>parseFloat\<close> on any value converts it to a string first: \<open>undefined\<close>, \<open>null\<close> and the
  booleans print as words and parse to \<open>NaN\<close>; a number prints and parses back to itself.
\<close>

fun parseFloatV :: "jsval \<Rightarrow> jsnum" where
  "parseFloatV VUndefined = parseFloat ''undefined''"
| "parseFloatV VNull = parseFloat ''null''"
| "parseFloatV (VBool b) = parseFloat (if b then ''true'' else ''false'')"
| "parseFloatV (VNum n) = n"
| "parseFloatV (VStr s) = parseFloat s"

text \<open>\<open>parseFloat(input?.value)\<close>: a missing element gives \<open>undefined\<close>.\<close>

definition parseFloatOpt :: "string option \<Rightarrow> jsnum" where
  "parseFloatOpt v = (case v of None \<Rightarrow> parseFloatV VUndefined | Some s \<Rightarrow> parseFloat s)"

definition isHexDigit :: "char \<Rightarrow> bool" where
  "isHexDigit c =
     (isDigit c \<or> (65 \<le> (of_char c :: nat) \<and> (of_char c :: nat) \<le> 70)
       \<or> (97 \<le> (of_char c :: nat) \<and> (of_char c :: nat) \<le> 102))"

definition hexVal :: "char \<Rightarrow> nat" where
  "hexVal c =
     (if isDigit c then digitVal c
      else if (of_char c :: nat) \<le> 70 then of_char c - 55
      else of_char c - 87)"

definition hexValue :: "string \<Rightarrow> nat" where
  "hexValue hs = foldl (\<lambda>acc c. 16 * acc + hexVal c) 0 hs"

text \<open>
  \<open>parseInt\<close> with no radix: white space, a sign, then hexadecimal digits after \<open>0x\<close> or
  decimal digits otherwise; \<open>None\<close> stands for \<open>NaN\<close>.
\<close>

definition parseInt :: "string \<Rightarrow> int option" where
  "parseInt s =
     (let (neg, u) = stripSign (dropWhile isWhiteSpace s);
          hex = (take 2 u = ''0x'' \<or> take 2 u = ''0X'');
          ds = (if hex then takeWhile isHexDigit (drop 2 u) else takeWhile isDigit u);
          n = (if hex then hexValue ds else digitsValue ds)
      in if ds = [] then None
         else Some (if neg then - int n else int n))"

definition digitChar :: "nat \<Rightarrow> char" where
  "digitChar d = ''0123456789'' ! d"

fun showNat :: "nat \<Rightarrow> string" where
  "showNat n =
     (if n < 10 then [digitChar n]
      else showNat (n div 10) @ [digitChar (n mod 10)])"

declare showNat.simps [simp del]

text \<open>A number inside a template literal, for the integers and \<open>NaN\<close> that reach one.\<close>

definition showNum :: "int option \<Rightarrow> string" where
  "showNum v =
     (case v of
        None \<Rightarrow> ''NaN''
      | Some i \<Rightarrow> if i < 0 then CHR ''-'' # showNat (nat (- i)) else showNat (nat i))"

definition startsWith :: "string \<Rightarrow> string \<Rightarrow> bool" where
  "startsWith s p = (take (length p) s = p)"

definition trim :: "string \<Rightarrow> string" where
  "trim s = rev (dropWhile isWhiteSpace (rev (dropWhile isWhiteSpace s)))"

section \<open>Period registry\<close>

datatype ptype = PeriodT | ExamT | SemesterT


record period =
  period_id :: string
  period_name :: string
  period_type :: ptype

definition mkPeriod :: "string \<Rightarrow> string \<Rightarrow> ptype \<Rightarrow> period" where
  "mkPeriod i n t = \<lparr>period_id = i, period_name = n, period_type = t\<rparr>"

definition getDefaultPeriods :: "period list" where
  "getDefaultPeriods =
     [mkPeriod ''p1'' ''1st Period'' PeriodT, mkPeriod ''p2'' ''2nd Period'' PeriodT,
      mkPeriod ''p3'' ''3rd Period'' PeriodT, mkPeriod ''exam1'' ''1st Semester'' ExamT,
      mkPeriod ''sem1'' ''1st Sem Avg'' SemesterT, mkPeriod ''p4'' ''4th Period'' PeriodT,
      mkPeriod ''p5'' ''5th Period'' PeriodT, mkPeriod ''p6'' ''6th Period'' PeriodT,
      mkPeriod ''exam2'' ''2nd Semester'' ExamT, mkPeriod ''sem2'' ''2nd Sem Avg'' SemesterT]"

text \<open>
  The remainder operator \<open>%\<close> on integers takes the sign of the dividend.
\<close>

definition jsRem :: "int \<Rightarrow> int \<Rightarrow> int" where
  "jsRem i m = (if i < 0 then - ((- i) mod m) else i mod m)"

text \<open>
  \<open>getOrdinalSuffix\<close> of the admin page. On \<open>NaN\<close> every comparison fails and the
  suffix is \<open>th\<close>.
\<close>

definition getOrdinalSuffix :: "int option \<Rightarrow> string" where
  "getOrdinalSuffix v =
     (case v of
        None \<Rightarrow> ''th''
      | Some i \<Rightarrow>
          (let j = jsRem i 10; k = jsRem i 100
           in if j = 1 \<and> k \<noteq> 11 then ''st''
              else if j = 2 \<and> k \<noteq> 12 then ''nd''
              else if j = 3 \<and> k \<noteq> 13 then ''rd''
              else ''th''))"

subsection \<open>Deriving the registry from persisted grades\<close>

text \<open>The type and the display name \<open>setActivePeriodsFromGrades\<close> gives to a key.\<close>

definition typeFromKey :: "string \<Rightarrow> ptype" where
  "typeFromKey key =
     (if startsWith key ''exam'' then ExamT
      else if startsWith key ''sem'' then SemesterT
      else PeriodT)"

definition nameFromKey :: "string \<Rightarrow> string" where
  "nameFromKey key =
     (if startsWith key ''p'' then
        (let num = parseInt (drop 1 key)
         in showNum num @ getOrdinalSuffix num @ '' Period'')
      else if key = ''exam1'' then ''1st Semester''
      else if key = ''sem1'' then ''1st Sem Avg''
      else if key = ''exam2'' then ''2nd Semester''
      else if key = ''sem2'' then ''2nd Sem Avg''
      else if startsWith key ''exam'' then ''Exam '' @ showNum (parseInt (drop 4 key))
      else key)"

definition periodFromKey :: "string \<Rightarrow> period" where
  "periodFromKey key = mkPeriod key (nameFromKey key) (typeFromKey key)"

text \<open>
  \<open>setActivePeriodsFromGrades\<close>, parameterised by the test that lets a key of the first
  subject through; the result is the new value of \<open>activePeriods\<close>.
\<close>

definition derivePeriods :: "(string \<Rightarrow> bool) \<Rightarrow> jsobject list \<Rightarrow> period list" where
  "derivePeriods keep gradesData =
     (let activePeriods =
            (case gradesData of
               [] \<Rightarrow> []
             | firstSubjectGrades # _ \<Rightarrow>
                 map periodFromKey (filter keep (map fst firstSubjectGrades)))
      in if length activePeriods = 0 then getDefaultPeriods else activePeriods)"

text \<open>
  The repository holds two copies of the admin script. The first copy's
  \<open>setActivePeriodsFromGrades\<close> skips the key \<open>subject\<close> only.
\<close>

definition setActivePeriodsFromGrades :: "jsobject list \<Rightarrow> period list" where
  "setActivePeriodsFromGrades gradesData =
     derivePeriods (\<lambda>key. key \<noteq> ''subject'') gradesData"

text \<open>The second copy skips \<open>subject\<close>, \<open>comment\<close>, \<open>_id\<close> and \<open>__v\<close>.\<close>

definition setActivePeriodsFromGrades2 :: "jsobject list \<Rightarrow> period list" where
  "setActivePeriodsFromGrades2 gradesData =
     derivePeriods
       (\<lambda>key. key \<noteq> ''subject'' \<and> key \<noteq> ''comment'' \<and> key \<noteq> ''_id'' \<and> key \<noteq> ''__v'')
       gradesData"

subsection \<open>Adding and removing periods\<close>

text \<open>
  The admin page's state, as far as the registry goes: the global \<open>activePeriods\<close> and
  the messages shown by \<open>alert\<close>, oldest first. Re-rendering the page reads
  \<open>activePeriods\<close> and does not change it.
\<close>

record admin_state =
  activePeriods :: "period list"
  alerts :: "string list"

text \<open>
  \<open>addPeriod(type, customName)\<close>; \<open>now\<close> is the value \<open>Date.now()\<close> returns when the
  computed id is taken.
\<close>




section \<open>Semester grouping (report-card view)\<close>

text \<open>\<open>parseInt(id.replace(/\D/g, ''))\<close>: the number made of the digits of the id.\<close>

definition numericSuffix :: "string \<Rightarrow> int option" where
  "numericSuffix i = parseInt (filter isDigit i)"

text \<open>The comparator handed to \<open>sort\<close>; \<open>None\<close> is a \<open>NaN\<close> result.\<close>

definition compareFn :: "period \<Rightarrow> period \<Rightarrow> int option" where
  "compareFn a b =
     (let aNum = numericSuffix (period_id a); bNum = numericSuffix (period_id b)
      in if period_type a \<noteq> period_type b
         then Some (if period_type a = ExamT then 1 else - 1)
         else (case aNum of
                 None \<Rightarrow> None
               | Some x \<Rightarrow> (case bNum of None \<Rightarrow> None | Some y \<Rightarrow> Some (x - y))))"

text \<open>
  \<open>Array.prototype.sort\<close> reads a \<open>NaN\<close> result as 0 and keeps the first argument in
  front unless the result is positive.
\<close>

definition staysBefore :: "period \<Rightarrow> period \<Rightarrow> bool" where
  "staysBefore a b = (case compareFn a b of None \<Rightarrow> True | Some v \<Rightarrow> v \<le> 0)"

text \<open>
  The sort is stable. It is modelled as insertion from the right: for a comparator that
  orders its inputs consistently the result is the one stable sorted arrangement; for an
  inconsistent comparator the language leaves the order to the engine and the model
  fixes one.
\<close>

fun insertPeriod :: "period \<Rightarrow> period list \<Rightarrow> period list" where
  "insertPeriod x [] = [x]"
| "insertPeriod x (y # ys) =
     (if staysBefore x y then x # y # ys else y # insertPeriod x ys)"

definition sortPeriods :: "period list \<Rightarrow> period list" where
  "sortPeriods ps = foldr insertPeriod ps []"

text \<open>The loop of \<open>groupPeriodsIntoSemesters\<close> over the sorted array.\<close>

fun groupLoop :: "period list \<Rightarrow> period list list \<Rightarrow> period list
    \<Rightarrow> period list list \<times> period list" where
  "groupLoop [] semesters currentSemester = (semesters, currentSemester)"
| "groupLoop (p # rest) semesters currentSemester =
     (if period_type p = ExamT
      then groupLoop rest (semesters @ [currentSemester @ [p]]) []
      else groupLoop rest semesters (currentSemester @ [p]))"

text \<open>
  \<open>groupPeriodsIntoSemesters\<close> sorts the array it is given in place, so the model returns
  two things: the caller's array as the call leaves it, and the returned groups.
\<close>

definition groupPeriodsIntoSemesters :: "period list \<Rightarrow> period list \<times> period list list" where
  "groupPeriodsIntoSemesters activePeriods0 =
     (let sortedPeriods = sortPeriods activePeriods0;
          (semesters, currentSemester) = groupLoop sortedPeriods [] [];
          semesters' = (if length currentSemester > 0 \<or> length sortedPeriods = 0
                        then semesters @ [currentSemester] else semesters)
      in (sortedPeriods, if length semesters' > 0 then semesters' else [sortedPeriods]))"

definition argumentAfter :: "period list \<Rightarrow> period list" where
  "argumentAfter ps = fst (groupPeriodsIntoSemesters ps)"

definition semestersOf :: "period list \<Rightarrow> period list list" where
  "semestersOf ps = snd (groupPeriodsIntoSemesters ps)"

section \<open>Grade matrix: collecting scores from the admin form\<close>

text \<open>
  The form is read through element ids: the map gives the \<open>value\<close> of the input with a
  given id, when the page has one.
\<close>

type_synonym form = "string \<Rightarrow> string option"

text \<open>The id \<open>sub<subjectId>-<periodId>\<close> of a score input.\<close>

definition inputId :: "nat \<Rightarrow> string \<Rightarrow> string" where
  "inputId subjectId periodId = ''sub'' @ showNat subjectId @ ''-'' @ periodId"

text \<open>
  \<open>collectCurrentGrades\<close> (first copy of the admin script). \<open>subjectNameGroups\<close> lists,
  for each subject group in page order, the value of its name input when it has one.
\<close>

definition collectGrade :: "form \<Rightarrow> period list \<Rightarrow> nat \<Rightarrow> string \<Rightarrow> jsobject" where
  "collectGrade inputs ps subjectId subjectName =
     foldl (\<lambda>grade p.
              setProp grade (period_id p)
                (VNum (orDefault (parseFloatOpt (inputs (inputId subjectId (period_id p))))
                         (Fin 90))))
       [(''subject'', VStr (trim subjectName))] ps"

definition collectCurrentGrades :: "form \<Rightarrow> string option list \<Rightarrow> period list \<Rightarrow> jsobject list" where
  "collectCurrentGrades inputs subjectNameGroups ps =
     concat (map (\<lambda>(subjectIndex, subjectNameInput).
                    (case subjectNameInput of
                       None \<Rightarrow> []
                     | Some v \<Rightarrow> [collectGrade inputs ps (subjectIndex + 1) v]))
               (zip [0..<length subjectNameGroups] subjectNameGroups))"

text \<open>
  The submit handler (first copy) collects the payload over the period ids it reads off
  the page.
\<close>

definition submitGrade :: "form \<Rightarrow> string list \<Rightarrow> nat \<Rightarrow> string \<Rightarrow> jsobject" where
  "submitGrade inputs periodIds subjectId subjectName =
     foldl (\<lambda>grade periodId.
              setProp grade periodId
                (VNum (case inputs (inputId subjectId periodId) of
                         None \<Rightarrow> Fin 0
                       | Some v \<Rightarrow> orDefault (parseFloat v) (Fin 0))))
       [(''subject'', VStr (trim subjectName))] periodIds"

definition submitGrades :: "form \<Rightarrow> string option list \<Rightarrow> string list \<Rightarrow> jsobject list" where
  "submitGrades inputs subjectNameGroups periodIds =
     concat (map (\<lambda>(subjectIndex, subjectNameInput).
                    (case subjectNameInput of
                       None \<Rightarrow> []
                     | Some v \<Rightarrow>
                         if trim v \<noteq> [] then [submitGrade inputs periodIds (subjectIndex + 1) v]
                         else []))
               (zip [0..<length subjectNameGroups] subjectNameGroups))"

section \<open>Averaging\<close>

text \<open>\<open>xs.reduce((a, b) => a + b, 0)\<close>.\<close>

definition reduceSum :: "jsnum list \<Rightarrow> jsnum" where
  "reduceSum xs = foldl jsAdd (Fin 0) xs"

subsection \<open>Admin page: \<open>calculateAndDisplayAverages\<close>\<close>

text \<open>One pass of the inner loop: subject \<open>i\<close> adds its scores to the totals.\<close>

definition addSubjectScores :: "form \<Rightarrow> period list \<Rightarrow> (string \<Rightarrow> jsnum option) \<Rightarrow> nat
    \<Rightarrow> (string \<Rightarrow> jsnum option)" where
  "addSubjectScores inputs ps totals i =
     foldl (\<lambda>t p.
              (case inputs (inputId i (period_id p)) of
                 None \<Rightarrow> t
               | Some v \<Rightarrow>
                   t(period_id p \<mapsto>
                       jsAdd (case t (period_id p) of None \<Rightarrow> NaN | Some x \<Rightarrow> x)
                         (orDefault (parseFloat v) (Fin 0)))))
       totals ps"

definition periodTotals :: "form \<Rightarrow> period list \<Rightarrow> nat \<Rightarrow> (string \<Rightarrow> jsnum option)" where
  "periodTotals inputs ps numSubjects =
     foldl (addSubjectScores inputs ps)
       (foldl (\<lambda>t p. t(period_id p \<mapsto> Fin 0)) (\<lambda>k. None) ps)
       [1..<numSubjects + 1]"

text \<open>\<open>totals[p.id] || 0\<close>.\<close>

definition totalOrZero :: "(string \<Rightarrow> jsnum option) \<Rightarrow> string \<Rightarrow> jsnum" where
  "totalOrZero totals k = (case totals k of None \<Rightarrow> Fin 0 | Some x \<Rightarrow> orDefault x (Fin 0))"

record admin_averages =
  sem1Avg :: jsnum
  sem2Avg :: jsnum
  finalAvg :: jsnum

text \<open>
  The semester and final averages the admin page shows; \<open>children\<close> is the number of
  children of the subject container.
\<close>

definition calculateAndDisplayAverages :: "form \<Rightarrow> period list \<Rightarrow> nat \<Rightarrow> admin_averages" where
  "calculateAndDisplayAverages inputs ps children =
     (let numSubjects = (if children = 0 then 1 else children);
          totals = periodTotals inputs ps numSubjects;
          sem1Periods = filter (\<lambda>p. period_id p \<in> set [''p1'', ''p2'', ''p3'', ''exam1'']) ps;
          sem2Periods = filter (\<lambda>p. period_id p \<in> set [''p4'', ''p5'', ''p6'', ''exam2'']) ps;
          sumSem1 = foldl (\<lambda>sum p. jsAdd sum (totalOrZero totals (period_id p))) (Fin 0) sem1Periods;
          sumSem2 = foldl (\<lambda>sum p. jsAdd sum (totalOrZero totals (period_id p))) (Fin 0) sem2Periods;
          s1 = (if length sem1Periods > 0
                then jsDivN (jsDivN sumSem1 numSubjects) (length sem1Periods) else Fin 0);
          s2 = (if length sem2Periods > 0
                then jsDivN (jsDivN sumSem2 numSubjects) (length sem2Periods) else Fin 0)
      in \<lparr>sem1Avg = s1, sem2Avg = s2, finalAvg = jsDivN (jsAdd s1 s2) 2\<rparr>)"

subsection \<open>Student view: \<open>calculateAvg\<close> and \<open>renderGradeTable\<close>\<close>

text \<open>
  \<open>calculateAvg\<close> is only ever called on results of \<open>parseFloat\<close>, so its arguments are
  numbers and the filter keeps exactly those that are not \<open>NaN\<close>. \<open>None\<close> is \<open>null\<close>.
\<close>

definition calculateAvg :: "jsnum list \<Rightarrow> jsnum option" where
  "calculateAvg values =
     (let validValues = filter (\<lambda>v. v \<noteq> NaN) values
      in if length validValues = 0 then None
         else Some (jsDivN (reduceSum validValues) (length validValues)))"

definition scoreOf :: "jsobject \<Rightarrow> string \<Rightarrow> jsnum" where
  "scoreOf grade k = parseFloatV (getProp grade k)"

definition avg1 :: "jsobject \<Rightarrow> jsnum option" where
  "avg1 grade = calculateAvg (map (scoreOf grade) [''p1'', ''p2'', ''p3'', ''exam1''])"

definition avg2 :: "jsobject \<Rightarrow> jsnum option" where
  "avg2 grade = calculateAvg (map (scoreOf grade) [''p4'', ''p5'', ''p6'', ''exam2''])"

definition yearlyOf :: "jsnum option \<Rightarrow> jsnum option \<Rightarrow> jsnum option" where
  "yearlyOf a1 a2 =
     (case a1 of
        Some x \<Rightarrow> (case a2 of Some y \<Rightarrow> Some (jsDivN (jsAdd x y) 2) | None \<Rightarrow> Some x)
      | None \<Rightarrow> (case a2 of Some y \<Rightarrow> Some y | None \<Rightarrow> None))"

definition yearly :: "jsobject \<Rightarrow> jsnum option" where
  "yearly grade = yearlyOf (avg1 grade) (avg2 grade)"

text \<open>A rendered average cell: \<open>-\<close>, or the number printed with one decimal.\<close>

datatype cell = Dash | Fixed1 jsnum

definition renderAvg :: "jsnum option \<Rightarrow> cell" where
  "renderAvg v = (case v of None \<Rightarrow> Dash | Some x \<Rightarrow> Fixed1 x)"

text \<open>
  The footer's running total and count of one column: \<open>addToTotal\<close> skips \<open>NaN\<close> and
  \<open>null\<close>.
\<close>

definition addToTotal :: "jsnum \<times> nat \<Rightarrow> jsnum option \<Rightarrow> jsnum \<times> nat" where
  "addToTotal tc val =
     (case val of
        None \<Rightarrow> tc
      | Some v \<Rightarrow> if v = NaN then tc else (jsAdd (fst tc) v, snd tc + 1))"

definition columnTotal :: "(jsobject \<Rightarrow> jsnum option) \<Rightarrow> jsobject list \<Rightarrow> jsnum \<times> nat" where
  "columnTotal column grades = foldl (\<lambda>tc grade. addToTotal tc (column grade)) (Fin 0, 0) grades"

definition setFooter :: "jsnum \<times> nat \<Rightarrow> cell" where
  "setFooter tc = (if snd tc > 0 then Fixed1 (jsDivN (fst tc) (snd tc)) else Dash)"

text \<open>The footer cell of a score column such as \<open>p1\<close>.\<close>

definition footerOfPeriod :: "string \<Rightarrow> jsobject list \<Rightarrow> cell" where
  "footerOfPeriod k grades = setFooter (columnTotal (\<lambda>grade. Some (scoreOf grade k)) grades)"

subsection \<open>Report-card view: \<open>buildTableBody\<close> and \<open>buildTableFooter\<close>\<close>

text \<open>\<open>xs.length > 0 ? xs.reduce((a, b) => a + b, 0) / xs.length : 0\<close>.\<close>

definition meanOrZero :: "jsnum list \<Rightarrow> jsnum" where
  "meanOrZero xs = (if length xs > 0 then jsDivN (reduceSum xs) (length xs) else Fin 0)"

text \<open>\<open>parseFloat(grade[p.id]) || 0\<close>.\<close>

definition scoreOrZero :: "jsobject \<Rightarrow> string \<Rightarrow> jsnum" where
  "scoreOrZero grade k = orDefault (parseFloatV (getProp grade k)) (Fin 0)"

text \<open>One subject's row of \<open>buildTableBody\<close>: its semester averages and its final average.\<close>

definition semesterAvg :: "jsobject \<Rightarrow> period list \<Rightarrow> jsnum" where
  "semesterAvg subjectGrade semesterPeriods =
     meanOrZero (map (\<lambda>p. scoreOrZero subjectGrade (period_id p)) semesterPeriods)"

definition subjectFinalAvg :: "jsobject \<Rightarrow> period list list \<Rightarrow> jsnum" where
  "subjectFinalAvg subjectGrade semesters =
     meanOrZero (map (semesterAvg subjectGrade) semesters)"

text \<open>The footer of \<open>buildTableFooter\<close>: the class-wide average of one period.\<close>

definition periodAverage :: "jsobject list \<Rightarrow> period \<Rightarrow> jsnum" where
  "periodAverage grades p =
     (let periodTotal =
            foldl (\<lambda>sum current. jsAdd sum (scoreOrZero current (period_id p))) (Fin 0) grades
      in if length grades > 0 then jsDivN periodTotal (length grades) else Fin 0)"

definition overallSemesterAvg :: "jsobject list \<Rightarrow> period list \<Rightarrow> jsnum" where
  "overallSemesterAvg grades semesterPeriods =
     meanOrZero (map (periodAverage grades) semesterPeriods)"

definition finalOverallAvg :: "jsobject list \<Rightarrow> period list list \<Rightarrow> jsnum" where
  "finalOverallAvg grades semesters = meanOrZero (map (overallSemesterAvg grades) semesters)"

section \<open>Concrete inputs\<close>

text \<open>
  The eight periods \<open>p1, p2, p3, exam1, p4, p5, p6, exam2\<close> in the order and with the
  names \<open>displayReportCard\<close> derives for them.
\<close>

definition eightPeriods :: "period list" where
  "eightPeriods =
     [mkPeriod ''p1'' ''1st Period'' PeriodT, mkPeriod ''p2'' ''2nd Period'' PeriodT,
      mkPeriod ''p3'' ''3rd Period'' PeriodT, mkPeriod ''exam1'' ''Exam 1'' ExamT,
      mkPeriod ''p4'' ''4th Period'' PeriodT, mkPeriod ''p5'' ''5th Period'' PeriodT,
      mkPeriod ''p6'' ''6th Period'' PeriodT, mkPeriod ''exam2'' ''Exam 2'' ExamT]"

text \<open>Periods and exams in no particular order, one of them numbered 10.\<close>

definition shuffledPeriods :: "period list" where
  "shuffledPeriods =
     [mkPeriod ''exam2'' ''Exam 2'' ExamT, mkPeriod ''p2'' ''2nd Period'' PeriodT,
      mkPeriod ''p10'' ''10th Period'' PeriodT, mkPeriod ''exam1'' ''Exam 1'' ExamT,
      mkPeriod ''p1'' ''1st Period'' PeriodT]"

text \<open>A form with one subject, Math, whose only score input \<open>sub1-p1\<close> holds the text \<open>0\<close>.\<close>

definition zeroScoreForm :: form where
  "zeroScoreForm = [''sub1-p1'' \<mapsto> ''0'']"

text \<open>
  A form with one subject that scores 80 in each period of the first semester; no period
  of the second semester is active.
\<close>

definition firstSemesterForm :: form where
  "firstSemesterForm =
     [''sub1-p1'' \<mapsto> ''80'', ''sub1-p2'' \<mapsto> ''80'', ''sub1-p3'' \<mapsto> ''80'',
      ''sub1-exam1'' \<mapsto> ''80'']"

definition firstSemesterPeriods :: "period list" where
  "firstSemesterPeriods =
     [mkPeriod ''p1'' ''1st Period'' PeriodT, mkPeriod ''p2'' ''2nd Period'' PeriodT,
      mkPeriod ''p3'' ''3rd Period'' PeriodT, mkPeriod ''exam1'' ''1st Semester'' ExamT]"

text \<open>A persisted grade entry that carries a comment and a storage id next to one score.\<close>

definition storedGrade :: jsobject where
  "storedGrade =
     [(''subject'', VStr ''Math''), (''comment'', VStr ''Good''), (''_id'', VStr ''65a1''),
      (''p1'', VNum (Fin 90))]"

text \<open>Two subjects whose \<open>p1\<close> scores are 100 and 0, and two where the second has none.\<close>

definition hundredAndZero :: "jsobject list" where
  "hundredAndZero =
     [[(''subject'', VStr ''Math''), (''p1'', VNum (Fin 100))],
      [(''subject'', VStr ''Art''), (''p1'', VNum (Fin 0))]]"

definition hundredAndMissing :: "jsobject list" where
  "hundredAndMissing =
     [[(''subject'', VStr ''Math''), (''p1'', VNum (Fin 100))],
      [(''subject'', VStr ''Art'')]]"

section \<open>Specification-side notions\<close>

text \<open>A group in which no period but the last is an exam.\<close>

definition examOnlyLast :: "period list \<Rightarrow> bool" where
  "examOnlyLast g = list_all (\<lambda>p. period_type p \<noteq> ExamT) (butlast g)"

text \<open>The numeric suffix as a sort key, for ids that contain a digit.\<close>

definition suffixKey :: "period \<Rightarrow> int" where
  "suffixKey p = (case numericSuffix (period_id p) of None \<Rightarrow> 0 | Some n \<Rightarrow> n)"

text \<open>A period of type \<open>period\<close> or \<open>exam\<close> whose id contains a digit.\<close>

definition plainPeriod :: "period \<Rightarrow> bool" where
  "plainPeriod p = (period_type p \<noteq> SemesterT \<and> numericSuffix (period_id p) \<noteq> None)"

text \<open>The finite numbers among a list of parsed scores: the valid numeric scores present.\<close>

fun finiteValues :: "jsnum list \<Rightarrow> rat list" where
  "finiteValues [] = []"
| "finiteValues (Fin r # vs) = r # finiteValues vs"
| "finiteValues (v # vs) = finiteValues vs"

definition notInfinite :: "jsnum \<Rightarrow> bool" where
  "notInfinite v = (v \<noteq> PInf \<and> v \<noteq> NInf)"

text \<open>Following the specification: the mean of the valid scores, \<open>null\<close> when there is none.\<close>

definition meanOfValid :: "jsnum list \<Rightarrow> jsnum option" where
  "meanOfValid vs =
     (if finiteValues vs = [] then None
      else Some (Fin (sum_list (finiteValues vs) / of_nat (length (finiteValues vs)))))"

text \<open>
  Following the specification: what a subject contributes to a class-wide sum, 0 when its
  score is missing or invalid.
\<close>

definition contribution :: "string \<Rightarrow> jsobject \<Rightarrow> rat" where
  "contribution k grade = (case scoreOf grade k of Fin r \<Rightarrow> r | _ \<Rightarrow> 0)"

text \<open>Following the specification: the sum of the contributions over the subject count.\<close>

definition classAverage :: "jsobject list \<Rightarrow> string \<Rightarrow> jsnum" where
  "classAverage grades k =
     Fin (sum_list (map (contribution k) grades) / of_nat (length grades))"








text \<open>
  A persisted grade entry with a score for \<open>p1\<close>, none for \<open>p2\<close>, text that is no number
  for \<open>p3\<close>, a numeric string for \<open>exam1\<close> and nothing for the second semester.
\<close>

definition sparseGrade :: jsobject where
  "sparseGrade =
     [(''subject'', VStr ''Math''), (''p1'', VNum (Fin 80)), (''p3'', VStr ''abc''),
      (''exam1'', VStr ''90'')]"

text \<open>One subject scoring 80 in each period of the first semester.\<close>

definition firstSemesterGrade :: jsobject where
  "firstSemesterGrade =
     [(''subject'', VStr ''Math''), (''p1'', VNum (Fin 80)), (''p2'', VNum (Fin 80)),
      (''p3'', VNum (Fin 80)), (''exam1'', VNum (Fin 80))]"

section \<open>Presentation: letter grades\<close>

datatype letter = A | B | C | D | F

text \<open>
  \<open>getLetterGrade\<close> (the student view and the report-card view hold identical copies).
\<close>

definition getLetterGrade :: "jsnum \<Rightarrow> letter" where
  "getLetterGrade score =
     (if jsGe score 90 then A
      else if jsGe score 80 then B
      else if jsGe score 70 then C
      else if jsGe score 60 then D
      else F)"

section \<open>Properties of the semester grouping\<close>

subsection \<open>The loop keeps every period and closes a group at each exam\<close>

lemma groupLoop_concat:
  "groupLoop ps sems cur = (S, c) \<Longrightarrow> concat S @ c = concat sems @ cur @ ps"
  by (induction ps sems cur rule: groupLoop.induct) (auto split: if_splits)

lemma groupLoop_exam:
  "groupLoop ps sems cur = (S, c) \<Longrightarrow> list_all examOnlyLast sems
     \<Longrightarrow> list_all (\<lambda>p. period_type p \<noteq> ExamT) cur
     \<Longrightarrow> list_all examOnlyLast S \<and> list_all (\<lambda>p. period_type p \<noteq> ExamT) c"
  by (induction ps sems cur rule: groupLoop.induct)
     (auto split: if_splits simp: examOnlyLast_def)

lemma noExam_examOnlyLast:
  "list_all (\<lambda>p. period_type p \<noteq> ExamT) c \<Longrightarrow> examOnlyLast c"
  unfolding examOnlyLast_def list_all_iff by (auto dest: in_set_butlastD)

lemma mset_insertPeriod: "mset (insertPeriod x ys) = add_mset x (mset ys)"
  by (induction ys) auto

lemma mset_sortPeriods: "mset (sortPeriods ps) = mset ps"
  by (induction ps) (auto simp: sortPeriods_def mset_insertPeriod)

lemma semestersOf_cases:
  obtains S c where "groupLoop (sortPeriods ps) [] [] = (S, c)"
    and "semestersOf ps = (if c \<noteq> [] \<or> sortPeriods ps = [] then S @ [c] else S)"
proof -
  obtain S c where g: "groupLoop (sortPeriods ps) [] [] = (S, c)"
    by (cases "groupLoop (sortPeriods ps) [] []")
  from groupLoop_concat[OF g] have cc: "concat S @ c = sortPeriods ps" by simp
  have "semestersOf ps = (if c \<noteq> [] \<or> sortPeriods ps = [] then S @ [c] else S)"
    using g cc by (auto simp: semestersOf_def groupPeriodsIntoSemesters_def Let_def)
  with g show thesis using that by blast
qed

text \<open>
  Claim C9. For every input list of periods (the non-empty ones among them), the
  concatenation of the groups \<open>groupPeriodsIntoSemesters\<close> returns is a permutation of the
  input: no period is dropped or duplicated. In every group, no period before the last is
  an exam: an exam-type period is the last element of its group.
\<close>

theorem groups_partition_input:
  "mset (concat (semestersOf ps)) = mset ps \<and> list_all examOnlyLast (semestersOf ps)"
proof -
  obtain S c where g: "groupLoop (sortPeriods ps) [] [] = (S, c)"
    and s: "semestersOf ps = (if c \<noteq> [] \<or> sortPeriods ps = [] then S @ [c] else S)"
    by (rule semestersOf_cases)
  from groupLoop_concat[OF g] have cc: "concat S @ c = sortPeriods ps" by simp
  from groupLoop_exam[OF g]
  have ex: "list_all examOnlyLast S" "list_all (\<lambda>p. period_type p \<noteq> ExamT) c"
    by simp_all
  have "concat (semestersOf ps) = sortPeriods ps" using s cc by (auto split: if_splits)
  then have "mset (concat (semestersOf ps)) = mset ps" by (simp add: mset_sortPeriods)
  moreover have "list_all examOnlyLast (semestersOf ps)"
    using s ex noExam_examOnlyLast[OF ex(2)] by (auto split: if_splits)
  ultimately show ?thesis by simp
qed

theorem groups_partition_input_witness:
  "mset (concat (semestersOf eightPeriods)) = mset eightPeriods
   \<and> list_all examOnlyLast (semestersOf eightPeriods)
   \<and> length eightPeriods = 8"
  using groups_partition_input[of eightPeriods] by (simp add: eightPeriods_def)

text \<open>
  Claim C1. On the eight periods \<open>p1, p2, p3, exam1, p4, p5, p6, exam2\<close> the claim expects
  the two groups \<open>[p1, p2, p3, exam1]\<close> and \<open>[p4, p5, p6, exam2]\<close>. The comparator puts
  every exam after every period, whatever the numbers, so the function returns the
  groups \<open>[p1, p2, p3, p4, p5, p6, exam1]\<close> and \<open>[exam2]\<close>.
\<close>

theorem eight_periods_grouping:
  "map (map period_id) (semestersOf eightPeriods)
     = [[''p1'', ''p2'', ''p3'', ''p4'', ''p5'', ''p6'', ''exam1''], [''exam2'']]"
  by code_simp

subsection \<open>The sort, on periods and exams with numbered ids\<close>

lemma staysBefore_same_type:
  "plainPeriod a \<Longrightarrow> plainPeriod b \<Longrightarrow> period_type a = period_type b
     \<Longrightarrow> staysBefore a b = (suffixKey a \<le> suffixKey b)"
  by (auto simp: staysBefore_def compareFn_def plainPeriod_def suffixKey_def Let_def
           split: option.splits)

lemma staysBefore_period_exam:
  "period_type a = PeriodT \<Longrightarrow> period_type b = ExamT \<Longrightarrow> staysBefore a b"
  by (simp add: staysBefore_def compareFn_def Let_def)

lemma staysBefore_exam_period:
  "period_type a = ExamT \<Longrightarrow> period_type b = PeriodT \<Longrightarrow> \<not> staysBefore a b"
  by (simp add: staysBefore_def compareFn_def Let_def)

lemma insertPeriod_exam:
  "period_type x = ExamT \<Longrightarrow> plainPeriod x
     \<Longrightarrow> list_all (\<lambda>p. period_type p = ExamT \<and> plainPeriod p) es
     \<Longrightarrow> insertPeriod x es = insort_key suffixKey x es"
  by (induction es) (auto simp: staysBefore_same_type)

lemma insertPeriod_exam_after:
  "period_type x = ExamT \<Longrightarrow> plainPeriod x
     \<Longrightarrow> list_all (\<lambda>p. period_type p = PeriodT) qs
     \<Longrightarrow> list_all (\<lambda>p. period_type p = ExamT \<and> plainPeriod p) es
     \<Longrightarrow> insertPeriod x (qs @ es) = qs @ insort_key suffixKey x es"
  by (induction qs) (auto simp: staysBefore_exam_period insertPeriod_exam)

lemma insertPeriod_period_before:
  "period_type x = PeriodT \<Longrightarrow> plainPeriod x
     \<Longrightarrow> list_all (\<lambda>p. period_type p = PeriodT \<and> plainPeriod p) qs
     \<Longrightarrow> list_all (\<lambda>p. period_type p = ExamT) es
     \<Longrightarrow> insertPeriod x (qs @ es) = insort_key suffixKey x qs @ es"
proof (induction qs)
  case Nil
  then show ?case by (cases es) (auto simp: staysBefore_period_exam)
next
  case (Cons q qs)
  then show ?case by (auto simp: staysBefore_same_type)
qed

lemma sortPeriods_split:
  "list_all plainPeriod ps \<Longrightarrow>
     sortPeriods ps = sort_key suffixKey (filter (\<lambda>p. period_type p = PeriodT) ps)
                      @ sort_key suffixKey (filter (\<lambda>p. period_type p = ExamT) ps)"
proof (induction ps)
  case Nil
  then show ?case by (simp add: sortPeriods_def)
next
  case (Cons x ps)
  let ?qs = "sort_key suffixKey (filter (\<lambda>p. period_type p = PeriodT) ps)"
  let ?es = "sort_key suffixKey (filter (\<lambda>p. period_type p = ExamT) ps)"
  from Cons have ih: "sortPeriods ps = ?qs @ ?es" and px: "plainPeriod x"
    and pps: "list_all plainPeriod ps" by simp_all
  have q: "list_all (\<lambda>p. period_type p = PeriodT \<and> plainPeriod p) ?qs"
    using pps by (auto simp: list_all_iff)
  have e: "list_all (\<lambda>p. period_type p = ExamT \<and> plainPeriod p) ?es"
    using pps by (auto simp: list_all_iff)
  have q': "list_all (\<lambda>p. period_type p = PeriodT) ?qs" using q by (auto simp: list_all_iff)
  have e': "list_all (\<lambda>p. period_type p = ExamT) ?es" using e by (auto simp: list_all_iff)
  have step: "sortPeriods (x # ps) = insertPeriod x (?qs @ ?es)"
    using ih by (simp add: sortPeriods_def)
  show ?case
  proof (cases "period_type x")
    case PeriodT
    then show ?thesis using step insertPeriod_period_before[OF PeriodT px q e'] by simp
  next
    case ExamT
    then show ?thesis using step insertPeriod_exam_after[OF ExamT px q' e] by simp
  next
    case SemesterT
    then show ?thesis using px by (simp add: plainPeriod_def)
  qed
qed

lemma plain_eightPeriods: "list_all plainPeriod eightPeriods"
  by code_simp

subsection \<open>The sort key of a numbered id is its number\<close>

lemma digitChar_isDigit: "d < 10 \<Longrightarrow> isDigit (digitChar d)"
proof -
  assume "d < 10"
  then have "d \<in> {0, 1, 2, 3, 4, 5, 6, 7, 8, 9}" by auto
  then show ?thesis by (auto simp: digitChar_def isDigit_def)
qed

lemma digitVal_digitChar: "d < 10 \<Longrightarrow> digitVal (digitChar d) = d"
proof -
  assume "d < 10"
  then have "d \<in> {0, 1, 2, 3, 4, 5, 6, 7, 8, 9}" by auto
  then show ?thesis by (auto simp: digitChar_def digitVal_def)
qed

lemma showNat_digits: "list_all isDigit (showNat n)"
proof (induction n rule: showNat.induct)
  case (1 n)
  show ?case
  proof (cases "n < 10")
    case True
    then show ?thesis by (subst showNat.simps) (simp add: digitChar_isDigit)
  next
    case False
    then show ?thesis using 1 by (subst showNat.simps) (simp add: digitChar_isDigit)
  qed
qed

lemma showNat_nonempty: "showNat n \<noteq> []"
  by (subst showNat.simps) simp

lemma digitsValue_snoc: "digitsValue (ds @ [c]) = 10 * digitsValue ds + digitVal c"
  by (simp add: digitsValue_def)

lemma digitsValue_showNat: "digitsValue (showNat n) = n"
proof (induction n rule: showNat.induct)
  case (1 n)
  show ?case
  proof (cases "n < 10")
    case True
    then show ?thesis
      by (subst showNat.simps) (simp add: digitsValue_def digitVal_digitChar)
  next
    case False
    then have "digitsValue (showNat (n div 10)) = n div 10" using 1 by simp
    then show ?thesis using False
      by (subst showNat.simps) (simp add: digitsValue_snoc digitVal_digitChar)
  qed
qed

lemma isDigit_facts:
  "isDigit c \<Longrightarrow>
     \<not> isWhiteSpace c \<and> c \<noteq> CHR ''-'' \<and> c \<noteq> CHR ''+'' \<and> c \<noteq> CHR ''x'' \<and> c \<noteq> CHR ''X''"
  by (auto simp: isDigit_def isWhiteSpace_def)

lemma parseInt_digits:
  assumes "ds \<noteq> []" and "list_all isDigit ds"
  shows "parseInt ds = Some (int (digitsValue ds))"
proof -
  obtain c r where ds: "ds = c # r" using assms(1) by (cases ds) auto
  have c: "isDigit c" using assms(2) ds by simp
  note f = isDigit_facts[OF c]
  have w: "dropWhile isWhiteSpace ds = ds" using f ds by simp
  have s: "stripSign ds = (False, ds)" using f ds by (simp add: stripSign_def)
  have h: "take 2 ds \<noteq> ''0x'' \<and> take 2 ds \<noteq> ''0X''"
  proof (cases r)
    case Nil
    then show ?thesis using ds by simp
  next
    case (Cons d r')
    then have "isDigit d" using assms(2) ds by simp
    from isDigit_facts[OF this] show ?thesis using ds Cons by simp
  qed
  have t: "takeWhile isDigit ds = ds" using assms(2) by (simp add: list_all_iff)
  show ?thesis using assms(1) by (simp add: parseInt_def w s h t Let_def)
qed

lemma numericSuffix_numbered:
  assumes "list_all (\<lambda>c. \<not> isDigit c) pre"
  shows "numericSuffix (pre @ showNat n) = Some (int n)"
proof -
  have "filter isDigit (pre @ showNat n) = showNat n"
    using assms showNat_digits[of n] by (simp add: list_all_iff filter_empty_conv)
  then show ?thesis
    by (simp add: numericSuffix_def parseInt_digits showNat_nonempty showNat_digits
          digitsValue_showNat)
qed

lemma suffixKey_numbered:
  "list_all (\<lambda>c. \<not> isDigit c) pre
     \<Longrightarrow> suffixKey (mkPeriod (pre @ showNat n) nm ty) = int n"
  by (simp add: suffixKey_def mkPeriod_def numericSuffix_numbered)

text \<open>
  Claim C10. \<open>groupPeriodsIntoSemesters\<close> sorts the array it is handed in place. For
  periods and exams whose ids carry a number, the caller's array holds after the call
  all period-type entries in the order of their numeric suffix, then all exam-type
  entries in the order of theirs (entries with equal suffix keep their order); the
  suffix of an id \<open>p<n>\<close> or \<open>exam<n>\<close> is the number \<open>n\<close>. The array
  \<open>exam2, p2, p10, exam1, p1\<close> is left as \<open>p1, p2, p10, exam1, exam2\<close>, and the eight
  periods \<open>p1, p2, p3, exam1, p4, p5, p6, exam2\<close> are left as
  \<open>p1, p2, p3, p4, p5, p6, exam1, exam2\<close>: reordered, not unchanged.
\<close>

theorem argument_sorted_in_place:
  assumes "list_all plainPeriod ps"
  shows "argumentAfter ps
           = sort_key suffixKey (filter (\<lambda>p. period_type p = PeriodT) ps)
             @ sort_key suffixKey (filter (\<lambda>p. period_type p = ExamT) ps)
         \<and> suffixKey (mkPeriod (''p'' @ showNat n) nm ty) = int n
         \<and> suffixKey (mkPeriod (''exam'' @ showNat n) nm ty) = int n
         \<and> map period_id (argumentAfter shuffledPeriods)
             = [''p1'', ''p2'', ''p10'', ''exam1'', ''exam2'']
         \<and> map period_id (argumentAfter eightPeriods)
             = [''p1'', ''p2'', ''p3'', ''p4'', ''p5'', ''p6'', ''exam1'', ''exam2'']
         \<and> argumentAfter eightPeriods \<noteq> eightPeriods"
proof -
  have a: "argumentAfter ps = sortPeriods ps"
    by (simp add: argumentAfter_def groupPeriodsIntoSemesters_def Let_def split: prod.splits)
  have k: "suffixKey (mkPeriod (''p'' @ showNat n) nm ty) = int n"
    "suffixKey (mkPeriod (''exam'' @ showNat n) nm ty) = int n"
    using suffixKey_numbered[of "''p''" n nm ty] suffixKey_numbered[of "''exam''" n nm ty]
    by (simp_all add: isDigit_def)
  have s: "map period_id (argumentAfter shuffledPeriods)
             = [''p1'', ''p2'', ''p10'', ''exam1'', ''exam2'']"
    by code_simp
  have b: "map period_id (argumentAfter eightPeriods)
             = [''p1'', ''p2'', ''p3'', ''p4'', ''p5'', ''p6'', ''exam1'', ''exam2'']"
    by code_simp
  have c: "map period_id eightPeriods
             = [''p1'', ''p2'', ''p3'', ''exam1'', ''p4'', ''p5'', ''p6'', ''exam2'']"
    by code_simp
  have d: "argumentAfter eightPeriods \<noteq> eightPeriods"
  proof
    assume "argumentAfter eightPeriods = eightPeriods"
    then have "map period_id (argumentAfter eightPeriods) = map period_id eightPeriods"
      by simp
    then show False unfolding b c by simp
  qed
  show ?thesis using a sortPeriods_split[OF assms] k s b d by simp
qed

lemma plain_shuffledPeriods: "list_all plainPeriod shuffledPeriods"
  by code_simp

theorem argument_sorted_in_place_witness:
  "list_all plainPeriod shuffledPeriods
   \<and> argumentAfter shuffledPeriods
           = sort_key suffixKey (filter (\<lambda>p. period_type p = PeriodT) shuffledPeriods)
             @ sort_key suffixKey (filter (\<lambda>p. period_type p = ExamT) shuffledPeriods)
   \<and> map period_id (argumentAfter shuffledPeriods)
           = [''p1'', ''p2'', ''p10'', ''exam1'', ''exam2'']"
proof -
  note t = argument_sorted_in_place[OF plain_shuffledPeriods, of 0 "[]" PeriodT]
  from t have a: "argumentAfter shuffledPeriods
           = sort_key suffixKey (filter (\<lambda>p. period_type p = PeriodT) shuffledPeriods)
             @ sort_key suffixKey (filter (\<lambda>p. period_type p = ExamT) shuffledPeriods)"
    by (rule conjunct1)
  from t have b: "map period_id (argumentAfter shuffledPeriods)
           = [''p1'', ''p2'', ''p10'', ''exam1'', ''exam2'']"
    by blast
  show ?thesis using plain_shuffledPeriods a b by blast
qed

section \<open>Properties of the period registry\<close>

subsection \<open>Adding and removing keep the registry invariant\<close>










subsection \<open>Deriving the registry from persisted grades\<close>

lemma derivePeriods_ids:
  "filter keep (map fst g) \<noteq> [] \<Longrightarrow>
     map period_id (derivePeriods keep (g # gs)) = filter keep (map fst g)"
  by (simp add: derivePeriods_def Let_def periodFromKey_def mkPeriod_def comp_def)

lemma derivePeriods_default:
  "filter keep (map fst g) = [] \<Longrightarrow> derivePeriods keep (g # gs) = getDefaultPeriods"
  by (simp add: derivePeriods_def)

text \<open>
  Claim C8. The claim has the keys \<open>subject\<close>, \<open>comment\<close> and the storage id fields left
  out of the derived registry. The first copy of \<open>setActivePeriodsFromGrades\<close> leaves out
  \<open>subject\<close> only: a first subject stored with a comment, an \<open>_id\<close> and a score for \<open>p1\<close>
  gives the three periods \<open>comment\<close>, \<open>_id\<close> and \<open>p1\<close>, the first two of type period. The
  second copy gives the one period \<open>p1\<close> on the same data.
\<close>

theorem first_copy_keeps_comment_and_id:
  "map period_id (setActivePeriodsFromGrades [storedGrade]) = [''comment'', ''_id'', ''p1'']
   \<and> map period_type (setActivePeriodsFromGrades [storedGrade]) = [PeriodT, PeriodT, PeriodT]
   \<and> map period_id (setActivePeriodsFromGrades2 [storedGrade]) = [''p1'']"
  by code_simp

section \<open>Properties of score collection\<close>

text \<open>
  Claim C4. The claim has a valid entered score of 0 kept as 0. \<open>collectCurrentGrades\<close>
  (first copy) writes \<open>parseFloat(input?.value) || 90\<close>: the text \<open>0\<close> parses to the number
  0, which is falsy, and 90 is stored in its place. The submit handler stores 0 for the
  same input.
\<close>

theorem zero_score_becomes_ninety:
  "collectCurrentGrades zeroScoreForm [Some ''Math''] [mkPeriod ''p1'' ''1st Period'' PeriodT]
     = [[(''subject'', VStr ''Math''), (''p1'', VNum (Fin 90))]]
   \<and> parseFloat ''0'' = Fin 0
   \<and> submitGrades zeroScoreForm [Some ''Math''] [''p1'']
     = [[(''subject'', VStr ''Math''), (''p1'', VNum (Fin 0))]]"
  by code_simp

section \<open>Properties of the averages\<close>

lemma foldl_jsAdd_Fin:
  "foldl jsAdd (Fin a) (map Fin rs) = Fin (a + sum_list rs)"
  by (induction rs arbitrary: a) (auto simp: add.assoc)

lemma reduceSum_Fin: "reduceSum (map Fin rs) = Fin (sum_list rs)"
  by (simp add: reduceSum_def foldl_jsAdd_Fin)

lemma filter_valid_finite:
  "list_all notInfinite vs \<Longrightarrow> filter (\<lambda>v. v \<noteq> NaN) vs = map Fin (finiteValues vs)"
  by (induction vs rule: finiteValues.induct) (auto simp: notInfinite_def)

lemma calculateAvg_meanOfValid:
  "list_all notInfinite vs \<Longrightarrow> calculateAvg vs = meanOfValid vs"
  by (simp add: calculateAvg_def meanOfValid_def filter_valid_finite reduceSum_Fin Let_def)

lemma sparseGrade_first:
  "list_all notInfinite (map (scoreOf sparseGrade) [''p1'', ''p2'', ''p3'', ''exam1''])"
  by code_simp

lemma sparseGrade_second:
  "list_all notInfinite (map (scoreOf sparseGrade) [''p4'', ''p5'', ''p6'', ''exam2''])"
  by code_simp

lemma sparseGrade_mean:
  "meanOfValid (map (scoreOf sparseGrade) [''p1'', ''p2'', ''p3'', ''exam1'']) = Some (Fin 85)"
  by code_simp

lemma sparseGrade_none:
  "finiteValues (map (scoreOf sparseGrade) [''p4'', ''p5'', ''p6'', ''exam2'']) = []"
  by code_simp

text \<open>
  Claim C5. In the student view, a subject's semester average is the mean of the valid
  numeric scores it has for the semester's four columns: an absent or non-numeric entry
  is in neither the sum nor the count. When the semester has no valid numeric score the
  average is \<open>null\<close> and the cell shows \<open>-\<close>, not 0. (Scores are taken to be finite.)
\<close>

theorem semester_average_skips_absent:
  assumes "list_all notInfinite (map (scoreOf grade) [''p1'', ''p2'', ''p3'', ''exam1''])"
    and "list_all notInfinite (map (scoreOf grade) [''p4'', ''p5'', ''p6'', ''exam2''])"
  shows "avg1 grade = meanOfValid (map (scoreOf grade) [''p1'', ''p2'', ''p3'', ''exam1''])
       \<and> avg2 grade = meanOfValid (map (scoreOf grade) [''p4'', ''p5'', ''p6'', ''exam2''])
       \<and> (finiteValues (map (scoreOf grade) [''p1'', ''p2'', ''p3'', ''exam1'']) = []
            \<longrightarrow> avg1 grade = None \<and> renderAvg (avg1 grade) = Dash)
       \<and> (finiteValues (map (scoreOf grade) [''p4'', ''p5'', ''p6'', ''exam2'']) = []
            \<longrightarrow> avg2 grade = None \<and> renderAvg (avg2 grade) = Dash)"
  using calculateAvg_meanOfValid[OF assms(1)] calculateAvg_meanOfValid[OF assms(2)]
  unfolding avg1_def avg2_def by (simp add: meanOfValid_def renderAvg_def)

theorem semester_average_skips_absent_witness:
  "list_all notInfinite (map (scoreOf sparseGrade) [''p1'', ''p2'', ''p3'', ''exam1''])
   \<and> list_all notInfinite (map (scoreOf sparseGrade) [''p4'', ''p5'', ''p6'', ''exam2''])
   \<and> avg1 sparseGrade = Some (Fin 85)
   \<and> avg2 sparseGrade = None \<and> renderAvg (avg2 sparseGrade) = Dash"
proof -
  note t = semester_average_skips_absent[OF sparseGrade_first sparseGrade_second]
  from t sparseGrade_mean have a: "avg1 sparseGrade = Some (Fin 85)" by simp
  from t sparseGrade_none
  have b: "avg2 sparseGrade = None \<and> renderAvg (avg2 sparseGrade) = Dash" by blast
  show ?thesis using sparseGrade_first sparseGrade_second a b by blast
qed

lemma scoreOrZero_contribution:
  "notInfinite (scoreOf g k) \<Longrightarrow> scoreOrZero g k = Fin (contribution k g)"
  by (cases "scoreOf g k")
     (auto simp: scoreOrZero_def contribution_def orDefault_def scoreOf_def notInfinite_def)

lemma periodTotal_contribution:
  "list_all (\<lambda>g. notInfinite (scoreOf g k)) grades \<Longrightarrow>
     foldl (\<lambda>sum current. jsAdd sum (scoreOrZero current k)) (Fin a) grades
       = Fin (a + sum_list (map (contribution k) grades))"
  by (induction grades arbitrary: a) (auto simp: scoreOrZero_contribution add.assoc)

lemma hundredAndMissing_nonempty: "hundredAndMissing \<noteq> []"
  by code_simp

lemma hundredAndMissing_finite:
  "list_all (\<lambda>g. notInfinite (scoreOf g (period_id (mkPeriod ''p1'' ''1st Period'' PeriodT))))
     hundredAndMissing"
  by code_simp

text \<open>
  Claim C2, as the code has it. In the report-card view (\<open>buildTableFooter\<close>) the
  class-wide average of a period is the sum of the subjects' scores for it divided by the
  number of subjects, a missing or invalid score counting as 0 in the sum and as one in
  the divisor. For two subjects whose \<open>p1\<close> scores are 100 and 0 it is 50, in that view
  and in the student view's footer alike. (Scores are taken to be finite.)
\<close>

theorem period_average_over_subjects:
  assumes "grades \<noteq> []"
    and "list_all (\<lambda>g. notInfinite (scoreOf g (period_id p))) grades"
  shows "periodAverage grades p = classAverage grades (period_id p)
       \<and> periodAverage hundredAndZero (mkPeriod ''p1'' ''1st Period'' PeriodT) = Fin 50
       \<and> footerOfPeriod ''p1'' hundredAndZero = Fixed1 (Fin 50)"
proof -
  have a: "periodAverage grades p = classAverage grades (period_id p)"
    using assms by (simp add: periodAverage_def classAverage_def periodTotal_contribution)
  have b: "periodAverage hundredAndZero (mkPeriod ''p1'' ''1st Period'' PeriodT) = Fin 50"
    by code_simp
  have c: "footerOfPeriod ''p1'' hundredAndZero = Fixed1 (Fin 50)"
    by code_simp
  show ?thesis using a b c by simp
qed

theorem period_average_over_subjects_witness:
  "hundredAndMissing \<noteq> []
   \<and> list_all (\<lambda>g. notInfinite (scoreOf g ''p1'')) hundredAndMissing
   \<and> periodAverage hundredAndMissing (mkPeriod ''p1'' ''1st Period'' PeriodT) = Fin 50"
proof -
  have e: "classAverage hundredAndMissing ''p1'' = Fin 50" by code_simp
  have i: "period_id (mkPeriod ''p1'' ''1st Period'' PeriodT) = ''p1''"
    by (simp add: mkPeriod_def)
  show ?thesis
    using period_average_over_subjects[OF hundredAndMissing_nonempty hundredAndMissing_finite]
      hundredAndMissing_nonempty hundredAndMissing_finite e i by simp
qed

text \<open>
  Claim C2 as stated fails in the student view: its footer (\<open>setFooter\<close>) divides a
  column's total by the count of valid scores. For two subjects of which one scores 100
  in \<open>p1\<close> and the other has no \<open>p1\<close> entry the footer shows 100, where the sum over the
  number of subjects is 50.
\<close>

theorem student_footer_skips_missing:
  "footerOfPeriod ''p1'' hundredAndMissing = Fixed1 (Fin 100)
   \<and> classAverage hundredAndMissing ''p1'' = Fin 50
   \<and> footerOfPeriod ''p1'' hundredAndMissing \<noteq> Fixed1 (classAverage hundredAndMissing ''p1'')"
  by code_simp

text \<open>
  Claim C3. The claim has the final average equal to the one semester average when only
  one semester has data. The admin page computes \<open>(sem1Avg + sem2Avg) / 2\<close> whatever
  periods are active: with the four periods of the first semester alone and one subject
  scoring 80 in each, the first semester average is 80, the second is 0 and the final
  average is 40. On the same scores the student view gives 80, and so does the
  report-card view on the one semester group.
\<close>

theorem admin_final_average_halved:
  "calculateAndDisplayAverages firstSemesterForm firstSemesterPeriods 1
     = \<lparr>sem1Avg = Fin 80, sem2Avg = Fin 0, finalAvg = Fin 40\<rparr>
   \<and> avg1 firstSemesterGrade = Some (Fin 80)
   \<and> avg2 firstSemesterGrade = None
   \<and> yearly firstSemesterGrade = Some (Fin 80)
   \<and> subjectFinalAvg firstSemesterGrade (semestersOf firstSemesterPeriods) = Fin 80"
  by code_simp

section \<open>Letter-grade thresholds\<close>

text \<open>
  Claim C7. A finite score is graded A exactly from 90 up, B exactly on [80, 90), C exactly
  on [70, 80), D exactly on [60, 70) and F exactly below 60; every boundary is inclusive
  on its upper grade: 59.99 is F, 60 is D, 89.99 is B and 90 is A.
\<close>

theorem getLetterGrade_thresholds:
  "(getLetterGrade (Fin r) = A \<longleftrightarrow> 90 \<le> r)
   \<and> (getLetterGrade (Fin r) = B \<longleftrightarrow> 80 \<le> r \<and> r < 90)
   \<and> (getLetterGrade (Fin r) = C \<longleftrightarrow> 70 \<le> r \<and> r < 80)
   \<and> (getLetterGrade (Fin r) = D \<longleftrightarrow> 60 \<le> r \<and> r < 70)
   \<and> (getLetterGrade (Fin r) = F \<longleftrightarrow> r < 60)
   \<and> getLetterGrade (Fin (5999 / 100)) = F
   \<and> getLetterGrade (Fin 60) = D
   \<and> getLetterGrade (Fin (8999 / 100)) = B
   \<and> getLetterGrade (Fin 90) = A"
  by (auto simp: getLetterGrade_def)

end
